theory Spec2Isabelle
  imports Main
begin

section \<open>JavaScript values\<close>

text \<open>
  A function value is known by its reference: two function values are the same function
  exactly when their references are equal (the \<^verbatim>\<open>===\<close> of the language). A function
  is either one that some other module defines (\<open>Imported\<close>) or the dispatcher that the
  store connection makes from an action creator (\<open>Dispatcher\<close>).
\<close>

type_synonym ref = nat

datatype fn = Imported ref | Dispatcher ref

datatype jsval =
    JUndefined
  | JNull
  | JBool bool
  | JNum int
  | JStr string
  | JFun fn
  | JObj "(string \<times> jsval) list"

text \<open>An object is the list of its properties, each name bound once, in insertion order.\<close>

type_synonym obj = "(string \<times> jsval) list"

datatype error = TypeError

text \<open>
  The property read \<^verbatim>\<open>v.k\<close>. Reading a property of \<^verbatim>\<open>undefined\<close> or \<^verbatim>\<open>null\<close>
  throws; reading a property that an object does not have gives \<^verbatim>\<open>undefined\<close>. Only
  the properties listed in the object are modelled: those that the built-in prototypes
  supply (such as the length of a string) are not, and \<^verbatim>\<open>accountRegister\<close>, the one
  name that this program reads, is none of them.
\<close>

fun get_member :: "jsval \<Rightarrow> string \<Rightarrow> error + jsval" where
  "get_member JUndefined k = Inl TypeError"
| "get_member JNull k = Inl TypeError"
| "get_member (JObj fs) k = Inr (case map_of fs k of None \<Rightarrow> JUndefined | Some v \<Rightarrow> v)"
| "get_member v k = Inr JUndefined"

text \<open>The assignment \<^verbatim>\<open>o[k] = v\<close>: an existing property keeps its place.\<close>

fun set_prop :: "string \<Rightarrow> jsval \<Rightarrow> obj \<Rightarrow> obj" where
  "set_prop k v [] = [(k, v)]"
| "set_prop k v ((k', v') # fs) =
     (if k = k' then (k, v) # fs else (k', v') # set_prop k v fs)"

text \<open>\<^verbatim>\<open>Object.assign(target, source)\<close>, which is also the spread \<^verbatim>\<open>{...target, ...source}\<close>.\<close>

definition assign :: "obj \<Rightarrow> obj \<Rightarrow> obj" where
  "assign target source = fold (\<lambda>(k, v). set_prop k v) source target"

section \<open>UI trees\<close>

text \<open>
  The type of an element is a host tag (\<^verbatim>\<open>'div'\<close>) or a component. An element carries
  the props it was given and its children; a child is an element or a text.
\<close>

datatype elem_type = Host string | Component string

datatype node = Text string | Element elem_type obj "node list"

text \<open>
  \<^verbatim>\<open>React.createElement(type, config, ...children)\<close>, which is what a JSX tag stands for.
  A tag without attributes has the empty configuration. The props of the element are the
  attributes of the tag: the names \<^verbatim>\<open>key\<close> and \<^verbatim>\<open>ref\<close>, which React keeps out
  of the props, do not occur in this program, and the defaults that a component may
  declare for its own props are that component's business, not the view's.
\<close>

definition createElement :: "elem_type \<Rightarrow> obj \<Rightarrow> node list \<Rightarrow> node" where
  "createElement ty config children = Element ty config children"

fun elem_type_of :: "node \<Rightarrow> elem_type option" where
  "elem_type_of (Text s) = None"
| "elem_type_of (Element ty ps cs) = Some ty"

fun props_of :: "node \<Rightarrow> obj" where
  "props_of (Text s) = []"
| "props_of (Element ty ps cs) = ps"

fun children_of :: "node \<Rightarrow> node list" where
  "children_of (Text s) = []"
| "children_of (Element ty ps cs) = cs"

text \<open>All elements of a tree whose type satisfies \<open>P\<close>, in document order.\<close>

fun find_all :: "(elem_type \<Rightarrow> bool) \<Rightarrow> node \<Rightarrow> node list" where
  "find_all P (Text s) = []"
| "find_all P (Element ty ps cs) =
     (if P ty then [Element ty ps cs] else []) @ concat (map (find_all P) cs)"

fun is_heading :: "elem_type \<Rightarrow> bool" where
  "is_heading (Host tag) = (tag \<in> set [''h1'', ''h2'', ''h3'', ''h4'', ''h5'', ''h6''])"
| "is_heading (Component c) = False"

text \<open>Whether a child is an element whose type satisfies \<open>P\<close>.\<close>

fun is_elem :: "(elem_type \<Rightarrow> bool) \<Rightarrow> node \<Rightarrow> bool" where
  "is_elem P (Text s) = False"
| "is_elem P (Element ty ps cs) = P ty"

section \<open>The Home component\<close>

text \<open>\<^verbatim>\<open>import RegistrationForm from '../Account/RegistrationForm'\<close>: the form component.\<close>

definition RegistrationForm :: elem_type where
  "RegistrationForm = Component ''RegistrationForm''"

definition is_form :: "elem_type \<Rightarrow> bool" where
  "is_form ty = (ty = RegistrationForm)"

text \<open>
  A component instance: the object that \<^verbatim>\<open>this\<close> is in \<^verbatim>\<open>render\<close>, with the props
  the parent gave and the component's own mutable state.
\<close>

record component_instance =
  props :: jsval
  local_state :: jsval

text \<open>
  \<^verbatim>\<open>
  render: function() {
    return (
      <div>
        <h2>Welcome.</h2>
        <RegistrationForm accountRegister={this.props.accountRegister} />
      </div>
    )
  }
  \<close>
  The result is what \<^verbatim>\<open>render\<close> returns or throws, together with the instance as
  \<^verbatim>\<open>render\<close> leaves it.
\<close>

definition Home_render :: "component_instance \<Rightarrow> (error + node) \<times> component_instance" where
  "Home_render this =
     (case get_member (props this) ''accountRegister'' of
        Inl e \<Rightarrow> (Inl e, this)
      | Inr accountRegister \<Rightarrow>
          (Inr (createElement (Host ''div'') []
                  [createElement (Host ''h2'') [] [Text ''Welcome.''],
                   createElement RegistrationForm
                     [(''accountRegister'', accountRegister)] []]),
           this))"

text \<open>
  \<^verbatim>\<open>
  function mapStateToProps(state) {
    return {};
  }
  \<close>
\<close>

definition mapStateToProps :: "jsval \<Rightarrow> obj" where
  "mapStateToProps state = []"

section \<open>The connected container\<close>

text \<open>
  Modelled from the spec: calling a function value. The action creators (the module
  \<^verbatim>\<open>../../actions/account\<close>) and the store with its \<^verbatim>\<open>dispatch\<close> (redux) are
  not in the source, so both are parameters: \<open>impl\<close> gives what each imported function
  returns or throws on its arguments, and \<open>dispatch\<close> what the store returns or throws
  when an action is dispatched to it, together with the store as that leaves it. An
  imported function is called as it is. The spec has each action creator bound as a
  callable dispatcher of unmodified signature: the dispatcher made from the action creator
  \<open>r\<close> is \<^verbatim>\<open>(...args) => dispatch(r(...args))\<close>. It passes its arguments to \<open>r\<close>
  unchanged; when \<open>r\<close> throws, nothing is dispatched; otherwise the action that \<open>r\<close>
  returns is dispatched, and what \<open>dispatch\<close> returns or throws is the outcome.
\<close>

fun call :: "(ref \<Rightarrow> jsval list \<Rightarrow> 'e + jsval) \<Rightarrow> (jsval \<Rightarrow> 's \<Rightarrow> ('e + jsval) \<times> 's)
    \<Rightarrow> fn \<Rightarrow> jsval list \<Rightarrow> 's \<Rightarrow> ('e + jsval) \<times> 's" where
  "call impl dispatch (Imported r) args store = (impl r args, store)"
| "call impl dispatch (Dispatcher r) args store =
     (case impl r args of
        Inl e \<Rightarrow> (Inl e, store)
      | Inr action \<Rightarrow> dispatch action store)"

text \<open>
  Modelled from the spec: the store-connection utility \<^verbatim>\<open>connect\<close> of react-redux and
  the module \<^verbatim>\<open>../../actions/account\<close> are not in the source. The spec has the
  utility accept a state-mapping function and an action-creator set and return a component
  factory; the container computes its props as the mapped state merged with the bound
  action creators, every supplied action creator bound under its own name, and renders the
  view with those props, again at each change notification of the store. The action-creator
  set is a parameter: a list of names, each with the reference of its action creator.
\<close>

definition bindActionCreators :: "(string \<times> ref) list \<Rightarrow> obj" where
  "bindActionCreators actionCreators = map (\<lambda>(k, r). (k, JFun (Dispatcher r))) actionCreators"

record container =
  stateProps :: obj
  dispatchProps :: obj

definition connect_mount :: "(jsval \<Rightarrow> obj) \<Rightarrow> (string \<times> ref) list \<Rightarrow> jsval \<Rightarrow> container" where
  "connect_mount mapState actionCreators s =
     \<lparr>stateProps = mapState s, dispatchProps = bindActionCreators actionCreators\<rparr>"

definition handleChange :: "(jsval \<Rightarrow> obj) \<Rightarrow> container \<Rightarrow> jsval \<Rightarrow> container" where
  "handleChange mapState c s = c\<lparr>stateProps := mapState s\<rparr>"

definition mergedProps :: "container \<Rightarrow> obj" where
  "mergedProps c = assign (stateProps c) (dispatchProps c)"

definition connect_render ::
    "(component_instance \<Rightarrow> (error + node) \<times> component_instance) \<Rightarrow> container \<Rightarrow> error + node" where
  "connect_render view c = fst (view \<lparr>props = JObj (mergedProps c), local_state = JNull\<rparr>)"

text \<open>
  \<^verbatim>\<open>
  export const HomeContainer = connect(
    mapStateToProps,
    accountActions
  )(Home);
  \<close>
  The container when it is mounted on a store in state \<open>s\<close>, after the store has notified
  it of a change to state \<open>s\<close>, and what it renders.
\<close>

definition HomeContainer_mount :: "(string \<times> ref) list \<Rightarrow> jsval \<Rightarrow> container" where
  "HomeContainer_mount accountActions s = connect_mount mapStateToProps accountActions s"

definition HomeContainer_handleChange :: "container \<Rightarrow> jsval \<Rightarrow> container" where
  "HomeContainer_handleChange c s = handleChange mapStateToProps c s"

definition HomeContainer_render :: "container \<Rightarrow> error + node" where
  "HomeContainer_render c = connect_render Home_render c"

text \<open>The container after a sequence of change notifications, one store state each.\<close>

definition HomeContainer_run :: "container \<Rightarrow> jsval list \<Rightarrow> container" where
  "HomeContainer_run c ss = foldl HomeContainer_handleChange c ss"

section \<open>The state mapping\<close>

text \<open>
  C1. Whatever the state, \<open>mapStateToProps\<close> returns the empty object; so its results on
  any two states are equal, and applying it to its own result changes nothing.
\<close>

theorem mapStateToProps_empty:
  "mapStateToProps s = []
   \<and> mapStateToProps s1 = mapStateToProps s2
   \<and> mapStateToProps (JObj (mapStateToProps s)) = mapStateToProps s"
  by (simp add: mapStateToProps_def)

section \<open>What the view renders\<close>

text \<open>
  On an instance whose props are an object, \<open>render\<close> returns the tree of the source
  text, with the value read from the props in the form's one attribute, and leaves the
  instance as it was.
\<close>

lemma Home_render_object:
  "Home_render \<lparr>props = JObj ps, local_state = st\<rparr> =
     (Inr (Element (Host ''div'') []
             [Element (Host ''h2'') [] [Text ''Welcome.''],
              Element RegistrationForm
                [(''accountRegister'',
                  case map_of ps ''accountRegister'' of None \<Rightarrow> JUndefined | Some v \<Rightarrow> v)] []]),
      \<lparr>props = JObj ps, local_state = st\<rparr>)"
  by (simp add: Home_render_def createElement_def)

text \<open>The one way \<open>render\<close> can throw: props that are \<^verbatim>\<open>undefined\<close> or \<^verbatim>\<open>null\<close>.\<close>

lemma Home_render_nullish:
  "fst (Home_render \<lparr>props = JUndefined, local_state = st\<rparr>) = Inl TypeError"
  "fst (Home_render \<lparr>props = JNull, local_state = st\<rparr>) = Inl TypeError"
  by (simp_all add: Home_render_def)

text \<open>
  C2. When the props object holds a function \<open>f\<close> under \<^verbatim>\<open>accountRegister\<close>, the
  rendered tree has exactly one form element, and its \<^verbatim>\<open>accountRegister\<close> prop is the
  function value \<open>f\<close> itself: the same reference, not a wrapper around it.
\<close>

theorem Home_render_forwards_callback:
  assumes "map_of ps ''accountRegister'' = Some (JFun f)"
  shows "\<exists>root. fst (Home_render \<lparr>props = JObj ps, local_state = st\<rparr>) = Inr root
           \<and> map props_of (find_all is_form root) = [[(''accountRegister'', JFun f)]]"
  using assms by (simp add: Home_render_object is_form_def RegistrationForm_def)

theorem Home_render_forwards_callback_witness:
  "map_of [(''children'', JNull), (''accountRegister'', JFun (Imported 7))] ''accountRegister''
     = Some (JFun (Imported 7))
   \<and> (\<exists>root. fst (Home_render \<lparr>props = JObj [(''children'', JNull),
                                   (''accountRegister'', JFun (Imported 7))],
                                 local_state = JNull\<rparr>) = Inr root
           \<and> map props_of (find_all is_form root) = [[(''accountRegister'', JFun (Imported 7))]])"
  using Home_render_forwards_callback
    [of "[(''children'', JNull), (''accountRegister'', JFun (Imported 7))]" "Imported 7" JNull]
  by simp

text \<open>
  C3. For every props object the rendered tree is a single \<^verbatim>\<open>div\<close> element with two
  children; the tree holds exactly one heading element and exactly one form element, and
  both are children of that \<^verbatim>\<open>div\<close>.
\<close>

theorem Home_render_one_heading_one_form:
  "\<exists>root. fst (Home_render \<lparr>props = JObj ps, local_state = st\<rparr>) = Inr root
     \<and> elem_type_of root = Some (Host ''div'')
     \<and> length (find_all is_heading root) = 1
     \<and> length (find_all is_form root) = 1
     \<and> length (children_of root) = 2
     \<and> filter (is_elem is_heading) (children_of root) = find_all is_heading root
     \<and> filter (is_elem is_form) (children_of root) = find_all is_form root"
  by (simp add: Home_render_object is_form_def RegistrationForm_def)

text \<open>
  C4. When the props object has no \<^verbatim>\<open>accountRegister\<close>, \<open>render\<close> does not throw: it
  returns the same tree, with \<^verbatim>\<open>undefined\<close> as the form's \<^verbatim>\<open>accountRegister\<close> prop.
\<close>

theorem Home_render_without_callback:
  assumes "map_of ps ''accountRegister'' = None"
  shows "fst (Home_render \<lparr>props = JObj ps, local_state = st\<rparr>) =
           Inr (Element (Host ''div'') []
                  [Element (Host ''h2'') [] [Text ''Welcome.''],
                   Element RegistrationForm [(''accountRegister'', JUndefined)] []])"
  using assms by (simp add: Home_render_object)

theorem Home_render_without_callback_witness:
  "map_of [(''children'', JNull)] ''accountRegister'' = None
   \<and> fst (Home_render \<lparr>props = JObj [(''children'', JNull)], local_state = JNull\<rparr>) =
           Inr (Element (Host ''div'') []
                  [Element (Host ''h2'') [] [Text ''Welcome.''],
                   Element RegistrationForm [(''accountRegister'', JUndefined)] []])"
  using Home_render_without_callback [of "[(''children'', JNull)]" JNull]
  by simp

text \<open>
  C7. For every props object, the form element is given one prop and no other: the names
  of its props are the single name \<^verbatim>\<open>accountRegister\<close>, and it has no children, so
  that nothing reaches the form as \<^verbatim>\<open>props.children\<close> either.
\<close>

theorem Home_render_forwards_one_prop:
  "\<exists>root. fst (Home_render \<lparr>props = JObj ps, local_state = st\<rparr>) = Inr root
     \<and> map (\<lambda>e. map fst (props_of e)) (find_all is_form root) = [[''accountRegister'']]
     \<and> map children_of (find_all is_form root) = [[]]"
  by (simp add: Home_render_object is_form_def RegistrationForm_def)

text \<open>
  C8. \<open>render\<close> is a function of the props alone: two instances with equal props, whatever
  their own state, give equal results; and \<open>render\<close> leaves the instance it is called
  on unchanged.
\<close>

theorem Home_render_pure:
  assumes "props a = props b"
  shows "fst (Home_render a) = fst (Home_render b)
         \<and> snd (Home_render a) = a \<and> snd (Home_render b) = b"
  using assms by (simp add: Home_render_def split: sum.splits)

theorem Home_render_pure_witness:
  "props \<lparr>props = JObj [(''accountRegister'', JFun (Imported 3))], local_state = JNull\<rparr>
     = props \<lparr>props = JObj [(''accountRegister'', JFun (Imported 3))], local_state = JNum 5\<rparr>
   \<and> fst (Home_render \<lparr>props = JObj [(''accountRegister'', JFun (Imported 3))],
                         local_state = JNull\<rparr>)
     = fst (Home_render \<lparr>props = JObj [(''accountRegister'', JFun (Imported 3))],
                           local_state = JNum 5\<rparr>)
   \<and> snd (Home_render \<lparr>props = JObj [(''accountRegister'', JFun (Imported 3))],
                         local_state = JNull\<rparr>)
     = \<lparr>props = JObj [(''accountRegister'', JFun (Imported 3))], local_state = JNull\<rparr>"
  using Home_render_pure
    [of "\<lparr>props = JObj [(''accountRegister'', JFun (Imported 3))], local_state = JNull\<rparr>"
        "\<lparr>props = JObj [(''accountRegister'', JFun (Imported 3))], local_state = JNum 5\<rparr>"]
  by simp

text \<open>
  C9. For every props object, the heading's content is the text \<^verbatim>\<open>Welcome.\<close> and
  nothing else, and the heading comes before the form, both among the children of the
  root and in the document order of the tree.
\<close>

theorem Home_render_heading_first:
  "\<exists>root. fst (Home_render \<lparr>props = JObj ps, local_state = st\<rparr>) = Inr root
     \<and> map children_of (find_all is_heading root) = [[Text ''Welcome.'']]
     \<and> map elem_type_of (children_of root) = [Some (Host ''h2''), Some RegistrationForm]
     \<and> map elem_type_of (find_all (\<lambda>ty. is_heading ty \<or> is_form ty) root)
         = [Some (Host ''h2''), Some RegistrationForm]"
  by (simp add: Home_render_object is_form_def RegistrationForm_def)

text \<open>
  C10. Two props objects from which the read of \<^verbatim>\<open>accountRegister\<close> gives the same
  value render to equal trees, however else the objects and the instances differ.
\<close>

theorem Home_render_noninterference:
  assumes "get_member (JObj ps1) ''accountRegister'' = get_member (JObj ps2) ''accountRegister''"
  shows "fst (Home_render \<lparr>props = JObj ps1, local_state = st1\<rparr>)
         = fst (Home_render \<lparr>props = JObj ps2, local_state = st2\<rparr>)"
  using assms by (simp add: Home_render_def)

theorem Home_render_noninterference_witness:
  "get_member (JObj [(''accountRegister'', JFun (Imported 3)), (''title'', JStr ''a'')])
       ''accountRegister''
     = get_member (JObj [(''children'', JNum 1), (''accountRegister'', JFun (Imported 3))])
         ''accountRegister''
   \<and> fst (Home_render \<lparr>props = JObj [(''accountRegister'', JFun (Imported 3)),
                                      (''title'', JStr ''a'')], local_state = JNull\<rparr>)
     = fst (Home_render \<lparr>props = JObj [(''children'', JNum 1),
                                        (''accountRegister'', JFun (Imported 3))],
                          local_state = JBool True\<rparr>)"
  using Home_render_noninterference
    [of "[(''accountRegister'', JFun (Imported 3)), (''title'', JStr ''a'')]"
        "[(''children'', JNum 1), (''accountRegister'', JFun (Imported 3))]" JNull "JBool True"]
  by simp

section \<open>The props that the container supplies\<close>





text \<open>A change notification replaces the mapped state and nothing else.\<close>

lemma HomeContainer_run_dispatchProps:
  "dispatchProps (HomeContainer_run c ss) = dispatchProps c"
  unfolding HomeContainer_run_def
  by (induction ss arbitrary: c) (simp_all add: HomeContainer_handleChange_def handleChange_def)

lemma HomeContainer_run_stateProps:
  "stateProps c = [] \<Longrightarrow> stateProps (HomeContainer_run c ss) = []"
  unfolding HomeContainer_run_def
  by (induction ss arbitrary: c)
     (simp_all add: HomeContainer_handleChange_def handleChange_def mapStateToProps_def)

lemma HomeContainer_mount_props:
  "stateProps (HomeContainer_mount acts s) = []"
  "dispatchProps (HomeContainer_mount acts s) = bindActionCreators acts"
  by (simp_all add: HomeContainer_mount_def connect_mount_def mapStateToProps_def)


text \<open>
  C5. After any sequence of change notifications, whatever the store states they carry,
  the props mapped from the state are the empty object, as they were at mount; the bound
  action creators are those made at mount; so the props supplied to the view, and what
  the container renders, are the same as at mount.
\<close>

theorem HomeContainer_props_constant:
  "stateProps (HomeContainer_run (HomeContainer_mount acts s) ss) = []
   \<and> stateProps (HomeContainer_run (HomeContainer_mount acts s) ss)
       = stateProps (HomeContainer_mount acts s)
   \<and> dispatchProps (HomeContainer_run (HomeContainer_mount acts s) ss)
       = dispatchProps (HomeContainer_mount acts s)
   \<and> mergedProps (HomeContainer_run (HomeContainer_mount acts s) ss)
       = mergedProps (HomeContainer_mount acts s)
   \<and> HomeContainer_render (HomeContainer_run (HomeContainer_mount acts s) ss)
       = HomeContainer_render (HomeContainer_mount acts s)"
  by (simp add: HomeContainer_run_dispatchProps HomeContainer_run_stateProps
      HomeContainer_mount_props mergedProps_def HomeContainer_render_def connect_render_def)



text \<open>A dispatcher whose action creator throws dispatches nothing.\<close>

lemma call_Dispatcher_throws:
  "impl r args = Inl e \<Longrightarrow> call impl dispatch (Dispatcher r) args store = (Inl e, store)"
  by simp



end
